theory Spec2Isabelle
  imports Main "HOL-Library.Sublist"
begin

section \<open>Strings, log records and observable effects\<close>

text \<open>
  A Python \<open>str\<close> is a sequence of Unicode code points and \<open>len\<close> counts code points, so
  a string is modelled as a list of code points. The channel content is Arabic and the
  markers are emoji, hence bytes would give the wrong lengths. \<open>str\<close> embeds an ASCII
  literal.
\<close>

type_synonym pystr = "nat list"

definition str :: "string \<Rightarrow> pystr" where
  "str s = map of_char s"

text \<open>The operator \<open>sub in s\<close> on strings: \<open>sub\<close> occurs in \<open>s\<close> as a contiguous block.\<close>

fun py_in :: "pystr \<Rightarrow> pystr \<Rightarrow> bool" where
  "py_in sub [] = (sub = [])"
| "py_in sub (c # cs) = (prefix sub (c # cs) \<or> py_in sub cs)"

text \<open>
  Everything the program does to the outside is recorded in a trace, in program order:
  a log record (level, the fixed ASCII text of the message without its leading emoji, and
  the interpolated values that the model tracks), a call of \<open>time.sleep\<close>, a call of the
  transport's \<open>bot.send_message\<close> with the text handed over, a call of the content
  generator, and a call of another collaborator, by name.
\<close>

datatype level = DEBUG | INFO | WARNING | ERROR

datatype arg = Text pystr | Num nat

datatype event =
    Log level string "arg list"
  | Sleep nat
  | Send_message pystr
  | Generate_content pystr
  | Call string

definition is_log :: "event \<Rightarrow> bool" where
  "is_log e = (case e of Log l t vs \<Rightarrow> True | _ \<Rightarrow> False)"

definition effects :: "event list \<Rightarrow> event list" where
  "effects evs = filter (\<lambda>e. \<not> is_log e) evs"

definition sent_texts :: "event list \<Rightarrow> pystr list" where
  "sent_texts evs = concat (map (\<lambda>e. case e of Send_message t \<Rightarrow> [t] | _ \<Rightarrow> []) evs)"

section \<open>Delivery client (src/telegram\_bot.py)\<close>

text \<open>
  One call of \<open>self.bot.send_message(chat_id, text, ...)\<close> either returns, raises
  \<open>ApiTelegramException\<close>, or raises another exception. The payload of
  \<open>ApiTelegramException\<close> is \<open>str(e).lower()\<close>, the only rendering of the exception that
  the handler branches on. The transport is an opaque collaborator: a function of an
  external world \<open>'w\<close> and the text, giving the outcome and the next world.
\<close>

datatype send_outcome = Sent | ApiTelegramException pystr | OtherException

record 'w telegram_bot =
  bot_send_message :: "'w \<Rightarrow> pystr \<Rightarrow> send_outcome \<times> 'w"
  channel_id :: pystr
  retry_attempts :: nat
  retry_delay :: nat

text \<open>\<open>TelegramBot.__init__\<close>: three retries, sixty seconds between them.\<close>

definition TelegramBot :: "('w \<Rightarrow> pystr \<Rightarrow> send_outcome \<times> 'w) \<Rightarrow> pystr \<Rightarrow> 'w telegram_bot" where
  "TelegramBot transport channel =
     \<lparr>bot_send_message = transport, channel_id = channel, retry_attempts = 3, retry_delay = 60\<rparr>"

text \<open>
  \<open>TelegramBot.send_message(message, retry_count=0)\<close>. The state is the trace so far and
  the external world; the result is the returned boolean with the new state. The
  recursive calls of the source are tail calls and pass on the (possibly truncated)
  \<open>message\<close> variable. \<open>retry_count\<close> starts at 0 and only grows, so it is a \<open>nat\<close>.
\<close>

function send_message ::
  "'w telegram_bot \<Rightarrow> pystr \<Rightarrow> nat \<Rightarrow> event list \<times> 'w \<Rightarrow> bool \<times> event list \<times> 'w" where
  "send_message self message retry_count (tr, w) =
    (let tr1 = tr @ [Log INFO ''Sending message to channel...'' [Text (channel_id self)]];
         long = (length message > 4096);
         message1 = (if long then take 4090 message @ str ''...'' else message);
         tr2 = (if long then tr1 @ [Log WARNING ''Message truncated to fit Telegram limit'' []]
                else tr1);
         r = bot_send_message self w message1;
         w1 = snd r;
         tr3 = tr2 @ [Send_message message1]
     in case fst r of
          Sent \<Rightarrow> (True, tr3 @ [Log INFO ''Message sent successfully'' []], w1)
        | OtherException \<Rightarrow>
            (False, tr3 @ [Log ERROR ''Unexpected error while sending message'' []], w1)
        | ApiTelegramException error_msg \<Rightarrow>
            if py_in (str ''too many requests'') error_msg then
              (let tr4 = tr3 @ [Log WARNING ''Rate limited. Waiting 60 seconds...'' [], Sleep 60]
               in if retry_count < retry_attempts self
                  then send_message self message1 (retry_count + 1) (tr4, w1)
                  else (False,
                        tr4 @ [Log ERROR ''Failed to send message after rate limit retries'' []],
                        w1))
            else if py_in (str ''timeout'') error_msg then
              (let tr4 = tr3 @ [Log WARNING ''Request timed out'' [Text error_msg]]
               in if retry_count < retry_attempts self
                  then send_message self message1 (retry_count + 1)
                         (tr4 @ [Log INFO ''Retrying...'' [], Sleep (retry_delay self)], w1)
                  else (False,
                        tr4 @ [Log ERROR ''Failed to send message after timeout retries'' []],
                        w1))
            else if py_in (str ''chat not found'') error_msg
                    \<or> py_in (str ''bot was blocked'') error_msg then
              (False, tr3 @ [Log ERROR ''Critical Telegram error - not retrying'' []], w1)
            else
              (let tr4 = tr3 @ [Log ERROR ''Telegram error while sending message'' [Text error_msg]]
               in if retry_count < retry_attempts self
                  then send_message self message1 (retry_count + 1)
                         (tr4 @ [Log INFO ''Retrying...'' [], Sleep (retry_delay self)], w1)
                  else (False,
                        tr4 @ [Log ERROR ''Failed to send message after all retries'' []],
                        w1)))"
  by pat_completeness auto
termination
  by (relation "measure (\<lambda>(self, message, retry_count, st). retry_attempts self - retry_count)")
     auto

declare send_message.simps [simp del]

text \<open>
  The four error classes of the delivery contract, as the \<open>if\<close>/\<open>elif\<close> chain of
  \<open>send_message\<close> decides them on \<open>str(e).lower()\<close>, in that order.
\<close>

datatype error_class = Rate_limited | Timeout | Permanent | Other

definition classify :: "pystr \<Rightarrow> error_class" where
  "classify error_msg =
     (if py_in (str ''too many requests'') error_msg then Rate_limited
      else if py_in (str ''timeout'') error_msg then Timeout
      else if py_in (str ''chat not found'') error_msg
              \<or> py_in (str ''bot was blocked'') error_msg then Permanent
      else Other)"

text \<open>
  The text that reaches the transport (the size guard at the head of \<open>send_message\<close>), and
  the events of one attempt up to and including the transport call.
\<close>

definition payload :: "pystr \<Rightarrow> pystr" where
  "payload message = (if length message > 4096 then take 4090 message @ str ''...'' else message)"

definition preamble :: "'w telegram_bot \<Rightarrow> pystr \<Rightarrow> event list" where
  "preamble self message =
     Log INFO ''Sending message to channel...'' [Text (channel_id self)]
     # (if length message > 4096
        then [Log WARNING ''Message truncated to fit Telegram limit'' []] else [])
     @ [Send_message (payload message)]"

text \<open>
  \<open>TelegramBot._get_content_title\<close> and the \<open>emoji_map\<close> of \<open>send_formatted_content\<close>: two
  dictionaries read with \<open>dict.get(key, default)\<close>. The values are the code points of the
  source's literals.
\<close>

definition titles :: "(pystr \<times> pystr) list" where
  "titles =
     [(str ''morning_azkar'', [1571, 1584, 1603, 1575, 1585, 32, 1575, 1604, 1589, 1576, 1575, 1581]),
      (str ''evening_azkar'', [1571, 1584, 1603, 1575, 1585, 32, 1575, 1604, 1605, 1587, 1575, 1569]),
      (str ''quran_verse'', [1570, 1610, 1577, 32, 1605, 1606, 32, 1575, 1604, 1602, 1585, 1570,
                             1606, 32, 1575, 1604, 1603, 1585, 1610, 1605]),
      (str ''daily_hadith'', [1581, 1583, 1610, 1579, 32, 1588, 1585, 1610, 1601]),
      (str ''daily_dua'', [1583, 1593, 1575, 1569, 32, 1605, 1587, 1578, 1580, 1575, 1576]),
      (str ''daily_reminder'', [1578, 1584, 1603, 1585, 1577, 32, 1573, 1610, 1605, 1575, 1606,
                                1610, 1577])]"

definition generic_title :: pystr where
  "generic_title = [1605, 1581, 1578, 1608, 1609, 32, 1573, 1587, 1604, 1575, 1605, 1610]"

definition get_content_title :: "pystr \<Rightarrow> pystr" where
  "get_content_title content_type =
     (case map_of titles content_type of Some t \<Rightarrow> t | None \<Rightarrow> generic_title)"

definition emoji_map :: "(pystr \<times> pystr) list" where
  "emoji_map =
     [(str ''morning_azkar'', [127749]),
      (str ''evening_azkar'', [127769]),
      (str ''quran_verse'', [128214]),
      (str ''daily_hadith'', [128218]),
      (str ''daily_dua'', [129330]),
      (str ''daily_reminder'', [128173])]"

definition generic_emoji :: pystr where
  "generic_emoji = [128332]"

text \<open>
  \<open>TelegramBot.send_formatted_content(content_type, content)\<close>. \<open>content\<close> is a string or
  \<open>None\<close>; \<open>not content\<close> holds for \<open>None\<close> and for the empty string. The f-string is
  the emoji, a space, the title in bold tags, two line feeds (code point 10) and the
  content.
\<close>

definition send_formatted_content ::
  "'w telegram_bot \<Rightarrow> pystr \<Rightarrow> pystr option \<Rightarrow> event list \<times> 'w \<Rightarrow> bool \<times> event list \<times> 'w" where
  "send_formatted_content self content_type content st =
     (case content of
        None \<Rightarrow> (False, fst st @ [Log ERROR ''Cannot send empty content'' []], snd st)
      | Some c \<Rightarrow>
          if c = [] then (False, fst st @ [Log ERROR ''Cannot send empty content'' []], snd st)
          else
            (let emoji = (case map_of emoji_map content_type of
                            Some e \<Rightarrow> e | None \<Rightarrow> generic_emoji);
                 formatted_message =
                   emoji @ str '' <b>'' @ get_content_title content_type @ str ''</b>''
                   @ [10, 10] @ c
             in send_message self formatted_message 0 st))"

section \<open>Job registry and scheduler (src/scheduler.py)\<close>

text \<open>
  A job of the registry: the content type bound as argument of the job function, the time
  of day in minutes after midnight, and the next run as a timestamp in seconds (midnight
  of the fixed timezone is a multiple of 86400). \<open>job_id\<close> is the identity of the job
  object, which \<open>_log_next_runs\<close> compares. The mutable state is the job list of the
  scheduling primitive (a module-level list, emptied by \<open>schedule.clear()\<close>) and the
  scheduler object's own \<open>scheduled_jobs\<close> list of (content type, time string, job).
\<close>

record job =
  job_id :: nat
  content_type :: pystr
  time_of_day :: nat
  next_run :: nat

record schedule_state =
  schedule_jobs :: "job list"
  fresh_id :: nat
  scheduled_jobs :: "(pystr \<times> pystr \<times> nat) list"

definition default_schedule :: "(pystr \<times> pystr) list" where
  "default_schedule =
     [(str ''morning_azkar'', str ''06:00''),
      (str ''quran_verse'', str ''08:00''),
      (str ''daily_hadith'', str ''12:00''),
      (str ''religious_post'', str ''14:00''),
      (str ''daily_reminder'', str ''17:00''),
      (str ''companion_story'', str ''19:00''),
      (str ''daily_dua'', str ''20:00''),
      (str ''evening_azkar'', str ''21:00'')]"

text \<open>\<open>ContentScheduler.__init__\<close>: no job yet.\<close>

definition ContentScheduler :: schedule_state where
  "ContentScheduler = \<lparr>schedule_jobs = [], fresh_id = 0, scheduled_jobs = []\<rparr>"

subsection \<open>The scheduling primitive\<close>

text \<open>
  The scheduling primitive behind \<open>schedule.every().day.at(..).do(..)\<close>, \<open>schedule.clear()\<close>
  and \<open>schedule.run_pending()\<close> is an imported package whose code is not among the sources.
  Its operations are modelled from the contract that the spec gives for the job registry.
\<close>

text \<open>
  Modelled from the spec: the parser of a time of day behind \<open>at(time_str)\<close> is missing. The
  spec's time of day is \<open>HH:MM\<close>: two digits, a colon (code point 58), two digits, the
  hour below 24 and the minute below 60; anything else is unparseable. The result is in
  minutes after midnight.
\<close>

definition digit :: "nat \<Rightarrow> nat option" where
  "digit c = (if 48 \<le> c \<and> c \<le> 57 then Some (c - 48) else None)"

fun parse_time_of_day :: "pystr \<Rightarrow> nat option" where
  "parse_time_of_day [h1, h2, c, m1, m2] =
     (case (digit h1, digit h2, digit m1, digit m2) of
        (Some a, Some b, Some x, Some y) \<Rightarrow>
          if c = 58 \<and> 10 * a + b < 24 \<and> 10 * x + y < 60
          then Some ((10 * a + b) * 60 + (10 * x + y)) else None
      | _ \<Rightarrow> None)"
| "parse_time_of_day _ = None"

text \<open>
  Modelled from the spec: the computation of the first \<open>next_run\<close> in \<open>do(..)\<close> is missing.
  The spec: the earliest future timestamp matching the time of day, today if not yet
  passed, else tomorrow.
\<close>

definition first_run :: "nat \<Rightarrow> nat \<Rightarrow> nat" where
  "first_run now tod =
     (let today = (now - now mod 86400) + tod * 60
      in if now < today then today else today + 86400)"

text \<open>
  Modelled from the spec: \<open>schedule.every().day.at(time_str).do(f, arg)\<close> is missing. The
  spec: an unparseable time of day is refused (the call raises before the job is
  registered); otherwise a job with its first \<open>next_run\<close> joins the registry.
\<close>

datatype schedule_error = ScheduleValueError

definition every_day_at_do ::
  "nat \<Rightarrow> pystr \<Rightarrow> pystr \<Rightarrow> schedule_state \<Rightarrow> schedule_error + job \<times> schedule_state" where
  "every_day_at_do now time_str arg sch =
     (case parse_time_of_day time_str of
        None \<Rightarrow> Inl ScheduleValueError
      | Some tod \<Rightarrow>
          (let j = \<lparr>job_id = fresh_id sch, content_type = arg, time_of_day = tod,
                    next_run = first_run now tod\<rparr>
           in Inr (j, sch\<lparr>schedule_jobs := schedule_jobs sch @ [j],
                           fresh_id := fresh_id sch + 1\<rparr>)))"

text \<open>Modelled from the spec: \<open>schedule.clear()\<close> is missing. The spec: the job set is emptied.\<close>

definition schedule_clear :: "schedule_state \<Rightarrow> schedule_state" where
  "schedule_clear sch = sch\<lparr>schedule_jobs := []\<rparr>"

text \<open>
  Modelled from the spec: the selection of due jobs inside \<open>schedule.run_pending()\<close> is
  missing. The spec: \<open>dueJobs(now)\<close> returns, in ascending \<open>next_run\<close> order, every job whose
  \<open>next_run \<le> now\<close>, and moves each returned job on by a day so that it cannot fire twice in
  a tick; a job's \<open>next_run\<close> is always the earliest future timestamp matching its time of
  day, so the new \<open>next_run\<close> is computed from the clock like the first one. Jobs with the
  same \<open>next_run\<close> keep the order of the registry, which the spec names as the source's
  order (the sort is stable).
\<close>

definition dueJobs :: "nat \<Rightarrow> job list \<Rightarrow> pystr list \<times> job list" where
  "dueJobs now js =
     (map content_type (sort_key next_run (filter (\<lambda>j. next_run j \<le> now) js)),
      map (\<lambda>j. if next_run j \<le> now then j\<lparr>next_run := first_run now (time_of_day j)\<rparr> else j)
          js)"


subsection \<open>The scheduler object\<close>

text \<open>
  \<open>ContentScheduler._log_next_runs\<close>: the (next run, content type) pairs of all jobs, the
  content type looked up by job identity in \<open>scheduled_jobs\<close> (first match, else
  \<open>unknown\<close>), sorted by next run with Python's stable sort, the first three logged. A
  scheduled job always has a \<open>next_run\<close>, so the \<open>if next_run\<close> test passes.
\<close>

definition jobs_info :: "schedule_state \<Rightarrow> (nat \<times> pystr) list" where
  "jobs_info sch =
     map (\<lambda>j. (next_run j,
               case find (\<lambda>(ct, time_str, scheduled_job). scheduled_job = job_id j)
                         (scheduled_jobs sch) of
                 Some (ct, time_str, scheduled_job) \<Rightarrow> ct
               | None \<Rightarrow> str ''unknown''))
         (schedule_jobs sch)"

definition upcoming :: "schedule_state \<Rightarrow> (nat \<times> pystr) list" where
  "upcoming sch = take 3 (sort_key fst (jobs_info sch))"

definition log_next_runs :: "schedule_state \<Rightarrow> event list \<Rightarrow> event list" where
  "log_next_runs sch tr =
     tr @ [Log INFO ''Next scheduled posts:'' []]
        @ map (\<lambda>(next_run, ct). Log INFO ''next run'' [Text ct, Num next_run]) (upcoming sch)"

text \<open>
  \<open>ContentScheduler.setup_schedule(custom_times=None)\<close>, at clock reading \<open>now\<close>. A
  dictionary is an association list in insertion order. \<open>custom_times or
  self.default_schedule\<close> takes the default for \<open>None\<close> and for the empty dictionary. The loop
  body is the \<open>try\<close>/\<open>except Exception\<close> around one entry.
\<close>

fun schedule_each ::
  "nat \<Rightarrow> (pystr \<times> pystr) list \<Rightarrow> schedule_state \<times> event list \<Rightarrow> schedule_state \<times> event list" where
  "schedule_each now [] st = st"
| "schedule_each now ((ct, time_str) # rest) st =
     (case every_day_at_do now time_str ct (fst st) of
        Inl e \<Rightarrow>
          schedule_each now rest
            (fst st, snd st @ [Log ERROR ''Failed to schedule'' [Text ct, Text time_str]])
      | Inr (j, sch) \<Rightarrow>
          schedule_each now rest
            (sch\<lparr>scheduled_jobs := scheduled_jobs sch @ [(ct, time_str, job_id j)]\<rparr>,
             snd st @ [Log INFO ''scheduled at'' [Text ct, Text time_str]]))"

definition setup_schedule ::
  "nat \<Rightarrow> (pystr \<times> pystr) list option \<Rightarrow> schedule_state \<times> event list \<Rightarrow> schedule_state \<times> event list" where
  "setup_schedule now custom_times st =
     (let schedule_times = (case custom_times of
                              None \<Rightarrow> default_schedule
                            | Some m \<Rightarrow> if m = [] then default_schedule else m);
          tr1 = snd st @ [Log INFO ''Setting up content schedule...'' []];
          sch1 = schedule_clear (fst st);
          st2 = schedule_each now schedule_times (sch1, tr1);
          tr3 = snd st2 @ [Log INFO ''Successfully scheduled content types''
                             [Num (length (scheduled_jobs (fst st2)))]]
      in (fst st2, log_next_runs (fst st2) tr3))"

text \<open>\<open>ContentScheduler.get_schedule_status\<close>; the next run is left as a timestamp.\<close>

record status =
  total_jobs :: nat
  scheduled_content_types :: nat
  status_next_run :: "nat option"

definition get_schedule_status :: "schedule_state \<Rightarrow> status" where
  "get_schedule_status sch =
     \<lparr>total_jobs = length (schedule_jobs sch),
      scheduled_content_types = length (scheduled_jobs sch),
      status_next_run = (case schedule_jobs sch of
                           [] \<Rightarrow> None
                         | j # js \<Rightarrow> Some (fold min (map next_run js) (next_run j)))\<rparr>"

text \<open>
  The content generator is an opaque collaborator: \<open>generate_content(content_type)\<close>
  returns a string or \<open>None\<close>, or raises.
\<close>

datatype gen_outcome = Content "pystr option" | GeneratorException

record 'w content_scheduler =
  telegram_bot :: "'w telegram_bot"
  content_generator :: "'w \<Rightarrow> pystr \<Rightarrow> gen_outcome \<times> 'w"

text \<open>
  \<open>ContentScheduler._generate_and_send_content(content_type)\<close>: returns nothing; every
  exception ends in the \<open>except Exception\<close> branch.
\<close>

definition generate_and_send_content ::
  "'w content_scheduler \<Rightarrow> pystr \<Rightarrow> event list \<times> 'w \<Rightarrow> event list \<times> 'w" where
  "generate_and_send_content self ct st =
     (let tr1 = fst st @ [Log INFO ''Executing scheduled task'' [Text ct], Generate_content ct];
          g = content_generator self (snd st) ct;
          w1 = snd g
      in case fst g of
           GeneratorException \<Rightarrow> (tr1 @ [Log ERROR ''Error in scheduled task'' [Text ct]], w1)
         | Content content \<Rightarrow>
             if content \<noteq> None \<and> content \<noteq> Some [] then
               (let r = send_formatted_content (telegram_bot self) ct content (tr1, w1);
                    success = fst r
                in (fst (snd r)
                      @ [if success then Log INFO ''Successfully posted'' [Text ct]
                         else Log ERROR ''Failed to post'' [Text ct]],
                    snd (snd r)))
             else (tr1 @ [Log ERROR ''No content generated for'' [Text ct]], w1))"

text \<open>
  \<open>ContentScheduler.run_content_now(content_type)\<close>. The guard tests membership in the
  keys of \<open>default_schedule\<close>. The registry is part of the state the method can reach.
\<close>

definition run_content_now ::
  "'w content_scheduler \<Rightarrow> pystr \<Rightarrow> schedule_state \<times> event list \<times> 'w
     \<Rightarrow> bool \<times> schedule_state \<times> event list \<times> 'w" where
  "run_content_now self ct st =
     (case st of (sch, tr, w) \<Rightarrow>
        if ct \<notin> set (map fst default_schedule)
        then (False, sch, tr @ [Log ERROR ''Unknown content type'' [Text ct]], w)
        else (True, sch,
              generate_and_send_content self ct
                (tr @ [Log INFO ''Manually triggering'' [Text ct]], w)))"

text \<open>
  \<open>ContentScheduler.run_pending_tasks\<close>, at clock reading \<open>now\<close>: \<open>schedule.run_pending()\<close>
  takes the due jobs from the registry and runs the job function of each, which is
  \<open>_generate_and_send_content\<close> with the job's content type.
\<close>

definition run_pending_tasks ::
  "'w content_scheduler \<Rightarrow> nat \<Rightarrow> schedule_state \<times> event list \<times> 'w
     \<Rightarrow> schedule_state \<times> event list \<times> 'w" where
  "run_pending_tasks self now st =
     (case st of (sch, tr, w) \<Rightarrow>
        (let d = dueJobs now (schedule_jobs sch)
         in (sch\<lparr>schedule_jobs := snd d\<rparr>,
             fold (generate_and_send_content self) (fst d) (tr, w))))"

section \<open>Supervisor (src/main.py)\<close>







section \<open>Notions used to state the properties\<close>

text \<open>
  What a job shows to the outside (content type, time of day, next run); the mapping that
  \<open>setup_schedule\<close> reads, after the fallback to the default; the jobs that a mapping
  yields at clock reading \<open>now\<close>, one for each entry whose time of day parses, in the
  mapping's order; and the log record of one entry.
\<close>

definition job_view :: "job \<Rightarrow> pystr \<times> nat \<times> nat" where
  "job_view j = (content_type j, time_of_day j, next_run j)"

definition schedule_times_of :: "(pystr \<times> pystr) list option \<Rightarrow> (pystr \<times> pystr) list" where
  "schedule_times_of custom_times =
     (case custom_times of None \<Rightarrow> default_schedule
      | Some m \<Rightarrow> if m = [] then default_schedule else m)"

definition accepted :: "nat \<Rightarrow> (pystr \<times> pystr) list \<Rightarrow> (pystr \<times> nat \<times> nat) list" where
  "accepted now m =
     concat (map (\<lambda>(ct, time_str). case parse_time_of_day time_str of
                                      None \<Rightarrow> []
                                    | Some tod \<Rightarrow> [(ct, tod, first_run now tod)]) m)"

definition entry_log :: "pystr \<times> pystr \<Rightarrow> event" where
  "entry_log e = (case e of (ct, time_str) \<Rightarrow>
     (case parse_time_of_day time_str of
        None \<Rightarrow> Log ERROR ''Failed to schedule'' [Text ct, Text time_str]
      | Some tod \<Rightarrow> Log INFO ''scheduled at'' [Text ct, Text time_str]))"

text \<open>
  The \<open>next_run\<close> of a job falls on the job's time of day. \<open>setup_schedule\<close> registers only
  such jobs and \<open>dueJobs\<close> keeps them so.
\<close>

definition aligned :: "job \<Rightarrow> bool" where
  "aligned j = (next_run j mod 86400 = time_of_day j * 60)"


section \<open>Collaborators for concrete runs\<close>

text \<open>
  Concrete transports and generators, on a world without state, for the runs that
  instantiate the theorems: a transport that accepts everything, one that always signals
  backpressure, one whose destination does not exist, and a generator with a fixed text.
\<close>

definition accept_all :: "unit \<Rightarrow> pystr \<Rightarrow> send_outcome \<times> unit" where
  "accept_all w t = (Sent, w)"

definition always_rate_limited :: "unit \<Rightarrow> pystr \<Rightarrow> send_outcome \<times> unit" where
  "always_rate_limited w t =
     (ApiTelegramException (str ''error code: 429. description: too many requests: retry after 5''), w)"

definition chat_missing :: "unit \<Rightarrow> pystr \<Rightarrow> send_outcome \<times> unit" where
  "chat_missing w t =
     (ApiTelegramException (str ''error code: 400. description: bad request: chat not found''), w)"

definition fixed_text :: "unit \<Rightarrow> pystr \<Rightarrow> gen_outcome \<times> unit" where
  "fixed_text w ct = (Content (Some (str ''subhan allah'')), w)"

definition failing_generator :: "unit \<Rightarrow> pystr \<Rightarrow> gen_outcome \<times> unit" where
  "failing_generator w ct = (GeneratorException, w)"

text \<open>
  Two registries built by \<open>setup_schedule\<close> at clock reading 0 (midnight) from a custom
  mapping with one entry.
\<close>

definition khutbah_registry :: schedule_state where
  "khutbah_registry =
     fst (setup_schedule 0 (Some [(str ''friday_khutbah'', str ''10:00'')]) (ContentScheduler, []))"



section \<open>Delivery client: size guard and retry policy\<close>

lemma length_payload: "length (payload m) \<le> 4096"
  by (simp add: payload_def str_def)

lemma payload_idem: "payload (payload m) = payload m"
  using length_payload[of m] by (simp add: payload_def[of "payload m"])

text \<open>
  One unfolding of \<open>send_message\<close>, with the size guard and the classification named.
\<close>

lemma send_message_unfold:
  "send_message self message rc (tr, w) =
    (let r = bot_send_message self w (payload message); w1 = snd r;
         tr3 = tr @ preamble self message
     in case fst r of
          Sent \<Rightarrow> (True, tr3 @ [Log INFO ''Message sent successfully'' []], w1)
        | OtherException \<Rightarrow>
            (False, tr3 @ [Log ERROR ''Unexpected error while sending message'' []], w1)
        | ApiTelegramException error_msg \<Rightarrow>
           (case classify error_msg of
             Rate_limited \<Rightarrow>
               if rc < retry_attempts self
               then send_message self (payload message) (rc + 1)
                      (tr3 @ [Log WARNING ''Rate limited. Waiting 60 seconds...'' [], Sleep 60], w1)
               else (False, tr3 @ [Log WARNING ''Rate limited. Waiting 60 seconds...'' [], Sleep 60,
                                   Log ERROR ''Failed to send message after rate limit retries'' []], w1)
           | Timeout \<Rightarrow>
               if rc < retry_attempts self
               then send_message self (payload message) (rc + 1)
                      (tr3 @ [Log WARNING ''Request timed out'' [Text error_msg],
                              Log INFO ''Retrying...'' [], Sleep (retry_delay self)], w1)
               else (False, tr3 @ [Log WARNING ''Request timed out'' [Text error_msg],
                                   Log ERROR ''Failed to send message after timeout retries'' []], w1)
           | Permanent \<Rightarrow>
               (False, tr3 @ [Log ERROR ''Critical Telegram error - not retrying'' []], w1)
           | Other \<Rightarrow>
               if rc < retry_attempts self
               then send_message self (payload message) (rc + 1)
                      (tr3 @ [Log ERROR ''Telegram error while sending message'' [Text error_msg],
                              Log INFO ''Retrying...'' [], Sleep (retry_delay self)], w1)
               else (False, tr3 @ [Log ERROR ''Telegram error while sending message'' [Text error_msg],
                                   Log ERROR ''Failed to send message after all retries'' []], w1)))"
  apply (subst send_message.simps)
  apply (cases "fst (bot_send_message self w (payload message))")
  unfolding Let_def payload_def preamble_def classify_def
  apply simp_all
  done

lemma sent_texts_append: "sent_texts (xs @ ys) = sent_texts xs @ sent_texts ys"
  by (simp add: sent_texts_def)

lemma sent_texts_simps:
  "sent_texts [] = []"
  "sent_texts (Log l t vs # evs) = sent_texts evs"
  "sent_texts (Sleep k # evs) = sent_texts evs"
  "sent_texts (Send_message x # evs) = x # sent_texts evs"
  "sent_texts (Generate_content c # evs) = sent_texts evs"
  "sent_texts (Call f # evs) = sent_texts evs"
  by (simp_all add: sent_texts_def)

lemma sent_texts_preamble: "sent_texts (preamble self m) = [payload m]"
  by (simp add: preamble_def sent_texts_simps sent_texts_append)

lemma warning_preamble:
  "4096 < length m \<Longrightarrow>
   Log WARNING ''Message truncated to fit Telegram limit'' [] \<in> set (preamble self m)"
  by (simp add: preamble_def)

lemma effects_append: "effects (xs @ ys) = effects xs @ effects ys"
  by (simp add: effects_def)

lemma effects_simps:
  "effects [] = []"
  "effects (Log l t vs # evs) = effects evs"
  "effects (Sleep k # evs) = Sleep k # effects evs"
  "effects (Send_message x # evs) = Send_message x # effects evs"
  "effects (Generate_content c # evs) = Generate_content c # effects evs"
  "effects (Call f # evs) = Call f # effects evs"
  by (simp_all add: effects_def is_log_def)

lemma effects_preamble: "effects (preamble self m) = [Send_message (payload m)]"
  by (simp add: preamble_def effects_simps effects_append)

text \<open>
  Every attempt of one \<open>send_message\<close> hands the same text to the transport: the trace
  grows by the first attempt's events and then by events whose transport calls all carry
  the guarded text.
\<close>

lemma send_message_sends_aux:
  "retry_attempts self - rc = n \<Longrightarrow>
   \<exists>evs. fst (snd (send_message self m rc (tr, w))) = tr @ preamble self m @ evs
        \<and> set (sent_texts evs) \<subseteq> {payload m}"
proof (induction n arbitrary: rc m tr w)
  case 0
  then have nolt: "\<not> rc < retry_attempts self" by simp
  show ?case
    apply (subst send_message_unfold)
    using nolt
    apply (simp add: Let_def sent_texts_simps split: send_outcome.split error_class.split)
    done
next
  case (Suc n)
  then have lt: "rc < retry_attempts self" and n: "retry_attempts self - (rc + 1) = n" by simp_all
  have IH: "\<exists>evs. fst (snd (send_message self (payload m) (rc + 1) (tr @ preamble self m @ pre, w1)))
               = tr @ preamble self m @ pre @ preamble self (payload m) @ evs
                 \<and> set (sent_texts evs) \<subseteq> {payload m}" for pre w1
    using Suc.IH[OF n, of "payload m" "tr @ preamble self m @ pre" w1] by (simp add: payload_idem)
  have rec: "set (sent_texts pre) \<subseteq> {payload m} \<Longrightarrow>
      \<exists>evs. fst (snd (send_message self (payload m) (rc + 1) (tr @ preamble self m @ pre, w1)))
               = tr @ preamble self m @ evs \<and> set (sent_texts evs) \<subseteq> {payload m}" for pre w1
  proof -
    assume p: "set (sent_texts pre) \<subseteq> {payload m}"
    from IH[of pre w1] obtain evs where
      e: "fst (snd (send_message self (payload m) (rc + 1) (tr @ preamble self m @ pre, w1)))
               = tr @ preamble self m @ pre @ preamble self (payload m) @ evs"
      and s: "set (sent_texts evs) \<subseteq> {payload m}" by blast
    show ?thesis
      apply (rule exI[of _ "pre @ preamble self (payload m) @ evs"])
      using e s p by (simp add: sent_texts_append sent_texts_preamble payload_idem)
  qed
  show ?case
    apply (subst send_message_unfold)
    using lt
    apply (simp add: Let_def sent_texts_simps split: send_outcome.split error_class.split)
    apply (intro conjI impI allI)
    using rec[of "[Log WARNING ''Rate limited. Waiting 60 seconds...'' [], Sleep 60]"]
          rec[of "[Log WARNING ''Request timed out'' [Text e], Log INFO ''Retrying...'' [],
                   Sleep (retry_delay self)]" for e]
          rec[of "[Log ERROR ''Telegram error while sending message'' [Text e],
                   Log INFO ''Retrying...'' [], Sleep (retry_delay self)]" for e]
    apply (simp_all add: sent_texts_simps)
    done
qed

text \<open>
  Claim C4. For every input text, every attempt of \<open>send_message\<close> hands the transport a
  text of at most 4096 characters, and the transport is called at least once: a text of
  at most 4096 characters is handed over unmodified; a longer one is cut to its first
  4090 = 4096 - 6 characters followed by the three characters of the ellipsis, 4093 in
  all, and the truncation is logged at level WARNING.
\<close>

theorem send_message_size_guard:
  "\<exists>evs. fst (snd (send_message self message retry_count (tr, w))) = tr @ evs
      \<and> sent_texts evs \<noteq> []
      \<and> (\<forall>t \<in> set (sent_texts evs).
            length t \<le> 4096
          \<and> (length message \<le> 4096 \<longrightarrow> t = message)
          \<and> (length message > 4096 \<longrightarrow>
                t = take 4090 message @ str ''...'' \<and> length (take 4090 message) = 4090
              \<and> length t = 4093))
      \<and> (length message > 4096 \<longrightarrow>
            Log WARNING ''Message truncated to fit Telegram limit'' [] \<in> set evs)"
proof -
  from send_message_sends_aux[of self retry_count "retry_attempts self - retry_count" message tr w]
  obtain evs where e: "fst (snd (send_message self message retry_count (tr, w)))
                        = tr @ preamble self message @ evs"
    and s: "set (sent_texts evs) \<subseteq> {payload message}" by blast
  have p: "length (payload message) \<le> 4096" by (rule length_payload)
  have q: "length message \<le> 4096 \<Longrightarrow> payload message = message" by (simp add: payload_def)
  have r: "length message > 4096 \<Longrightarrow> payload message = take 4090 message @ str ''...''
            \<and> length (take 4090 message) = 4090 \<and> length (payload message) = 4093"
    by (simp add: payload_def str_def)
  show ?thesis
    apply (rule exI[of _ "preamble self message @ evs"])
    using e s p q r warning_preamble[of message self]
    apply (auto simp add: sent_texts_append sent_texts_preamble)
    done
qed

theorem send_message_size_guard_witness:
  "length (replicate 5000 (65::nat)) > 4096
   \<and> (\<exists>evs. fst (snd (send_message (TelegramBot accept_all (str ''@channel''))
                        (replicate 5000 65) 0 ([], ()))) = evs
          \<and> sent_texts evs \<noteq> []
          \<and> (\<forall>t \<in> set (sent_texts evs). t = replicate 4090 65 @ [46, 46, 46] \<and> length t = 4093)
          \<and> Log WARNING ''Message truncated to fit Telegram limit'' [] \<in> set evs)
   \<and> length (str ''salam'') \<le> 4096
   \<and> (\<exists>evs. fst (snd (send_message (TelegramBot accept_all (str ''@channel''))
                        (str ''salam'') 0 ([], ()))) = evs
          \<and> sent_texts evs \<noteq> []
          \<and> (\<forall>t \<in> set (sent_texts evs). t = str ''salam''))"
  using send_message_size_guard[of "TelegramBot accept_all (str ''@channel'')"
          "replicate 5000 65" 0 "[]" "()"]
        send_message_size_guard[of "TelegramBot accept_all (str ''@channel'')"
          "str ''salam''" 0 "[]" "()"]
  by (auto simp add: str_def)

text \<open>
  A transport that signals backpressure on every call: with \<open>n\<close> retries left, the
  effects are \<open>n + 1\<close> rounds of one transport call and one sleep of 60 seconds.
\<close>

lemma send_message_rate_limited_aux:
  assumes rl: "\<forall>w t. \<exists>e. fst (bot_send_message self w t) = ApiTelegramException e
                          \<and> classify e = Rate_limited"
  shows "retry_attempts self - rc = n \<Longrightarrow>
         \<exists>evs w'. send_message self m rc (tr, w) = (False, tr @ evs, w')
            \<and> effects evs = concat (replicate (n + 1) [Send_message (payload m), Sleep 60])"
proof (induction n arbitrary: rc m tr w)
  case 0
  then have nolt: "\<not> rc < retry_attempts self" by simp
  from rl obtain e where e: "fst (bot_send_message self w (payload m)) = ApiTelegramException e"
    and c: "classify e = Rate_limited" by blast
  show ?case
    apply (subst send_message_unfold)
    using nolt e c
    apply (simp add: Let_def effects_append effects_preamble effects_simps)
    done
next
  case (Suc n)
  then have lt: "rc < retry_attempts self" and n: "retry_attempts self - (rc + 1) = n" by simp_all
  from rl obtain e where e: "fst (bot_send_message self w (payload m)) = ApiTelegramException e"
    and c: "classify e = Rate_limited" by blast
  define tr1 where
    "tr1 = tr @ preamble self m @ [Log WARNING ''Rate limited. Waiting 60 seconds...'' [], Sleep 60]"
  define w1 where "w1 = snd (bot_send_message self w (payload m))"
  from Suc.IH[OF n, of "payload m" tr1 w1] obtain evs w' where
    r: "send_message self (payload m) (rc + 1) (tr1, w1) = (False, tr1 @ evs, w')"
    and f: "effects evs = concat (replicate (n + 1) [Send_message (payload m), Sleep 60])"
    by (auto simp: payload_idem)
  have step: "send_message self m rc (tr, w) = send_message self (payload m) (rc + 1) (tr1, w1)"
    apply (subst send_message_unfold)
    using lt e c by (simp add: Let_def tr1_def w1_def)
  show ?case
    apply (rule exI[of _ "preamble self m
                          @ [Log WARNING ''Rate limited. Waiting 60 seconds...'' [], Sleep 60] @ evs"])
    apply (rule exI[of _ w'])
    using step r f
    apply (simp add: tr1_def effects_append effects_preamble effects_simps)
    done
qed

lemma sent_texts_effects: "sent_texts (effects evs) = sent_texts evs"
  by (induction evs) (auto simp: sent_texts_def effects_def is_log_def split: event.splits)

lemma count_rounds: "length (sent_texts (concat (replicate k [Send_message x, Sleep d]))) = k"
  by (induction k) (simp_all add: sent_texts_simps)

text \<open>
  Claim C2. If the transport reports rate-limited on every attempt, \<open>send_message\<close>
  (called as its callers do, with retry count 0) returns failure after exactly
  \<open>1 + retry_attempts\<close> transport calls, 4 with the default of 3, and its effects are that
  many rounds of a transport call followed by a sleep of 60 seconds: a cooldown sleep
  stands between each try and the retry after it.
\<close>

theorem send_message_rate_limited:
  assumes "\<forall>w t. \<exists>e. fst (bot_send_message self w t) = ApiTelegramException e
                          \<and> classify e = Rate_limited"
  shows "\<exists>evs w'. send_message self message 0 (tr, w) = (False, tr @ evs, w')
            \<and> length (sent_texts evs) = 1 + retry_attempts self
            \<and> effects evs = concat (replicate (1 + retry_attempts self)
                                       [Send_message (payload message), Sleep 60])"
proof -
  from send_message_rate_limited_aux[OF assms, of 0 "retry_attempts self" message tr w]
  obtain evs w' where r: "send_message self message 0 (tr, w) = (False, tr @ evs, w')"
    and f: "effects evs = concat (replicate (retry_attempts self + 1)
                                    [Send_message (payload message), Sleep 60])"
    by auto
  have "length (sent_texts evs) = retry_attempts self + 1"
    unfolding sent_texts_effects[of evs, symmetric] f by (rule count_rounds)
  with r f show ?thesis by simp
qed

theorem send_message_rate_limited_witness:
  "fst (send_message (TelegramBot always_rate_limited (str ''@channel'')) (str ''salam'') 0 ([], ()))
     = False
   \<and> length (sent_texts (fst (snd (send_message (TelegramBot always_rate_limited (str ''@channel''))
                                     (str ''salam'') 0 ([], ()))))) = 4"
  using send_message_rate_limited[of "TelegramBot always_rate_limited (str ''@channel'')"
          "str ''salam''" "[]" "()"]
  by (auto simp add: TelegramBot_def always_rate_limited_def classify_def str_def)

text \<open>
  Claim C3. If the transport reports a permanent failure (the error is classified
  permanent: chat not found, or bot was blocked), \<open>send_message\<close> returns failure at once:
  its only effect is the one transport call, without any sleep, and its last act is the
  log record of the critical error.
\<close>

theorem send_message_permanent:
  assumes "fst (bot_send_message self w (payload message)) = ApiTelegramException e"
      and "classify e = Permanent"
  shows "\<exists>evs. send_message self message retry_count (tr, w)
                 = (False, tr @ evs, snd (bot_send_message self w (payload message)))
            \<and> effects evs = [Send_message (payload message)]
            \<and> last evs = Log ERROR ''Critical Telegram error - not retrying'' []"
  apply (subst send_message_unfold)
  using assms
  apply (simp add: Let_def effects_append effects_preamble effects_simps)
  done

theorem send_message_permanent_witness:
  "classify (str ''error code: 400. description: bad request: chat not found'') = Permanent
   \<and> fst (send_message (TelegramBot chat_missing (str ''@channel'')) (str ''salam'') 0 ([], ()))
       = False
   \<and> effects (fst (snd (send_message (TelegramBot chat_missing (str ''@channel''))
                           (str ''salam'') 0 ([], ()))))
       = [Send_message (str ''salam'')]"
  using send_message_permanent[of "TelegramBot chat_missing (str ''@channel'')" "()"
          "str ''salam''" "str ''error code: 400. description: bad request: chat not found''" 0 "[]"]
  by (auto simp add: TelegramBot_def chat_missing_def classify_def payload_def str_def)

text \<open>
  Claim C10. \<open>send_formatted_content\<close> with absent or empty content returns failure at once:
  it only logs an error, the transport is not called and the world is untouched. With
  non-empty content and a content type that neither table knows, it delegates to
  \<open>send_message\<close> with the generic marker, the generic title in bold tags and the content.
\<close>

theorem send_formatted_content_empty_or_unknown:
  "((content = None \<or> content = Some []) \<longrightarrow>
      send_formatted_content self ct content (tr, w)
        = (False, tr @ [Log ERROR ''Cannot send empty content'' []], w)
      \<and> sent_texts (fst (snd (send_formatted_content self ct content (tr, w)))) = sent_texts tr)
   \<and> (\<forall>c. content = Some c \<and> c \<noteq> [] \<and> ct \<notin> fst ` set emoji_map \<and> ct \<notin> fst ` set titles \<longrightarrow>
          send_formatted_content self ct content (tr, w)
            = send_message self
                (generic_emoji @ str '' <b>'' @ generic_title @ str ''</b>'' @ [10, 10] @ c) 0 (tr, w))"
  by (auto simp add: send_formatted_content_def get_content_title_def Let_def
        sent_texts_append sent_texts_simps map_of_eq_None_iff[THEN iffD2])

theorem send_formatted_content_empty_or_unknown_witness:
  "send_formatted_content (TelegramBot accept_all (str ''@channel'')) (str ''companion_story'')
       (Some []) ([], ())
     = (False, [Log ERROR ''Cannot send empty content'' []], ())
   \<and> str ''companion_story'' \<notin> fst ` set emoji_map
   \<and> str ''companion_story'' \<notin> fst ` set titles
   \<and> sent_texts (fst (snd (send_formatted_content (TelegramBot accept_all (str ''@channel''))
                              (str ''companion_story'') (Some (str ''qissa'')) ([], ()))))
       = [128332 # str '' <b>'' @ generic_title @ str ''</b>'' @ [10, 10] @ str ''qissa'']"
  using send_formatted_content_empty_or_unknown[of "Some []"
          "TelegramBot accept_all (str ''@channel'')" "str ''companion_story''" "[]" "()"]
        send_formatted_content_empty_or_unknown[of "Some (str ''qissa'')"
          "TelegramBot accept_all (str ''@channel'')" "str ''companion_story''" "[]" "()"]
  by (simp add: emoji_map_def titles_def generic_emoji_def generic_title_def str_def
        send_message_unfold payload_def preamble_def TelegramBot_def accept_all_def
        sent_texts_simps Let_def)

section \<open>Supervisor: restart after the foreground call returns\<close>











section \<open>Scheduler: manual trigger\<close>

text \<open>
  Claim C6, amended. \<open>run_content_now\<close> fails fast (returns False after logging the unknown
  content type, without generating or sending) for every content type that is not a key
  of the built-in default schedule, whatever the registry holds; for every key of the
  built-in default schedule it runs, at once, the very \<open>_generate_and_send_content\<close> that
  scheduled jobs run (after its own log record, the trace and the world are those of a
  tick in which that content type alone is due), and leaves the registry with every
  \<open>next_run\<close> as it was.
\<close>

theorem run_content_now_guard:
  "(ct \<notin> set (map fst default_schedule) \<longrightarrow>
      run_content_now self ct (sch, tr, w)
        = (False, sch, tr @ [Log ERROR ''Unknown content type'' [Text ct]], w))
   \<and> (ct \<in> set (map fst default_schedule) \<longrightarrow>
      run_content_now self ct (sch, tr, w)
        = (True, sch, generate_and_send_content self ct
                        (tr @ [Log INFO ''Manually triggering'' [Text ct]], w))
      \<and> schedule_jobs (fst (snd (run_content_now self ct (sch, tr, w)))) = schedule_jobs sch
      \<and> (\<forall>now. fst (dueJobs now (schedule_jobs sch)) = [ct] \<longrightarrow>
             snd (snd (run_content_now self ct (sch, tr, w)))
               = snd (run_pending_tasks self now
                        (sch, tr @ [Log INFO ''Manually triggering'' [Text ct]], w))))"
  by (simp add: run_content_now_def run_pending_tasks_def Let_def)

theorem run_content_now_guard_witness:
  "str ''friday_khutbah'' \<notin> set (map fst default_schedule)
   \<and> run_content_now \<lparr>telegram_bot = TelegramBot accept_all (str ''@channel''),
                         content_generator = fixed_text\<rparr>
        (str ''friday_khutbah'') (khutbah_registry, [], ())
       = (False, khutbah_registry, [Log ERROR ''Unknown content type'' [Text (str ''friday_khutbah'')]], ())
   \<and> str ''daily_dua'' \<in> set (map fst default_schedule)
   \<and> schedule_jobs (fst (snd (run_content_now \<lparr>telegram_bot = TelegramBot accept_all (str ''@channel''),
                         content_generator = fixed_text\<rparr>
        (str ''daily_dua'') (khutbah_registry, [], ())))) = schedule_jobs khutbah_registry"
  using run_content_now_guard[of "str ''friday_khutbah''"
          "\<lparr>telegram_bot = TelegramBot accept_all (str ''@channel''), content_generator = fixed_text\<rparr>"
          khutbah_registry "[]" "()"]
        run_content_now_guard[of "str ''daily_dua''"
          "\<lparr>telegram_bot = TelegramBot accept_all (str ''@channel''), content_generator = fixed_text\<rparr>"
          khutbah_registry "[]" "()"]
  by (simp add: default_schedule_def str_def)

text \<open>
  Claim C6 as stated fails: in a registry set up from a custom mapping with the single
  content type \<open>friday_khutbah\<close>, the manual trigger refuses that registered content type
  and accepts \<open>morning_azkar\<close>, which was never registered.
\<close>

theorem run_content_now_guard_counterexample:
  "map content_type (schedule_jobs khutbah_registry) = [str ''friday_khutbah'']
   \<and> fst (run_content_now \<lparr>telegram_bot = TelegramBot accept_all (str ''@channel''),
                             content_generator = fixed_text\<rparr>
            (str ''friday_khutbah'') (khutbah_registry, [], ())) = False
   \<and> fst (run_content_now \<lparr>telegram_bot = TelegramBot accept_all (str ''@channel''),
                             content_generator = fixed_text\<rparr>
            (str ''morning_azkar'') (khutbah_registry, [], ())) = True"
  by (simp add: khutbah_registry_def setup_schedule_def Let_def schedule_clear_def
        ContentScheduler_def every_day_at_do_def run_content_now_def default_schedule_def
        str_def digit_def)

text \<open>
  Claim C9. For every content type that \<open>run_content_now\<close> accepts, the call returns True,
  whatever the generator and the transport do: the boolean only tells whether the content
  type is a key of the default schedule.
\<close>

theorem run_content_now_returns_True:
  "fst (run_content_now self ct (sch, tr, w)) = (ct \<in> set (map fst default_schedule))"
  by (simp add: run_content_now_def)

theorem run_content_now_returns_True_witness:
  "str ''daily_dua'' \<in> set (map fst default_schedule)
   \<and> run_content_now \<lparr>telegram_bot = TelegramBot chat_missing (str ''@channel''),
                        content_generator = failing_generator\<rparr>
         (str ''daily_dua'') (ContentScheduler, [], ())
       = (True, ContentScheduler,
          [Log INFO ''Manually triggering'' [Text (str ''daily_dua'')],
           Log INFO ''Executing scheduled task'' [Text (str ''daily_dua'')],
           Generate_content (str ''daily_dua''),
           Log ERROR ''Error in scheduled task'' [Text (str ''daily_dua'')]], ())
   \<and> fst (run_content_now \<lparr>telegram_bot = TelegramBot chat_missing (str ''@channel''),
                             content_generator = fixed_text\<rparr>
            (str ''daily_dua'') (ContentScheduler, [], ())) = True
   \<and> last (fst (snd (snd (run_content_now
              \<lparr>telegram_bot = TelegramBot chat_missing (str ''@channel''),
               content_generator = fixed_text\<rparr>
              (str ''daily_dua'') (ContentScheduler, [], ())))))
       = Log ERROR ''Failed to post'' [Text (str ''daily_dua'')]"
proof -
  have k: "str ''daily_dua'' \<in> set (map fst default_schedule)"
    by (simp add: default_schedule_def str_def)
  have g: "generate_and_send_content
             \<lparr>telegram_bot = TelegramBot chat_missing (str ''@channel''),
              content_generator = failing_generator\<rparr>
             (str ''daily_dua'') (tr, ())
           = (tr @ [Log INFO ''Executing scheduled task'' [Text (str ''daily_dua'')],
                    Generate_content (str ''daily_dua''),
                    Log ERROR ''Error in scheduled task'' [Text (str ''daily_dua'')]], ())" for tr
    by (simp add: generate_and_send_content_def failing_generator_def Let_def)
  have c: "classify (str ''error code: 400. description: bad request: chat not found'') = Permanent"
    by (simp add: classify_def str_def)
  have f: "fst (send_message (TelegramBot chat_missing ch) m 0 (tr, ())) = False"
    for ch m tr
    by (subst send_message_unfold) (simp add: TelegramBot_def chat_missing_def c Let_def)
  have t: "last (fst (generate_and_send_content
             \<lparr>telegram_bot = TelegramBot chat_missing (str ''@channel''),
              content_generator = fixed_text\<rparr>
             (str ''daily_dua'') (tr, ())))
           = Log ERROR ''Failed to post'' [Text (str ''daily_dua'')]" for tr
    by (simp add: generate_and_send_content_def fixed_text_def Let_def
          send_formatted_content_def f str_def)
  from run_content_now_returns_True[of
          "\<lparr>telegram_bot = TelegramBot chat_missing (str ''@channel''),
            content_generator = failing_generator\<rparr>"
          "str ''daily_dua''" ContentScheduler "[]" "()"]
       run_content_now_returns_True[of
          "\<lparr>telegram_bot = TelegramBot chat_missing (str ''@channel''),
            content_generator = fixed_text\<rparr>"
          "str ''daily_dua''" ContentScheduler "[]" "()"]
  show ?thesis
    using k by (simp add: run_content_now_def g t)
qed

section \<open>Job registry: setting up the schedule\<close>

text \<open>
  The loop of \<open>setup_schedule\<close> adds one job for each entry that parses, in order, and
  one log record for every entry.
\<close>

lemma schedule_each_result:
  "map job_view (schedule_jobs (fst (schedule_each now m st)))
     = map job_view (schedule_jobs (fst st)) @ accepted now m
   \<and> snd (schedule_each now m st) = snd st @ map entry_log m"
proof (induction m arbitrary: st)
  case Nil
  show ?case by (simp add: accepted_def)
next
  case (Cons e m)
  obtain ct ts where e: "e = (ct, ts)" by (cases e)
  show ?case
  proof (cases "parse_time_of_day ts")
    case None
    then show ?thesis
      using Cons.IH[of "(fst st, snd st @ [Log ERROR ''Failed to schedule'' [Text ct, Text ts]])"]
      by (simp add: e every_day_at_do_def accepted_def entry_log_def)
  next
    case (Some tod)
    then show ?thesis
      using Cons.IH
      by (simp add: e every_day_at_do_def accepted_def entry_log_def Let_def job_view_def)
  qed
qed

lemma setup_schedule_result:
  "map job_view (schedule_jobs (fst (setup_schedule now custom_times st)))
     = accepted now (schedule_times_of custom_times)
   \<and> (\<exists>evs. snd (setup_schedule now custom_times st)
          = snd st @ [Log INFO ''Setting up content schedule...'' []]
              @ map entry_log (schedule_times_of custom_times) @ evs)"
  using schedule_each_result[of now "schedule_times_of custom_times"
          "(schedule_clear (fst st), snd st @ [Log INFO ''Setting up content schedule...'' []])"]
  by (simp add: setup_schedule_def Let_def schedule_times_of_def[symmetric] schedule_clear_def
        log_next_runs_def)

lemma accepted_default:
  "accepted now default_schedule =
     [(str ''morning_azkar'', 360, first_run now 360),
      (str ''quran_verse'', 480, first_run now 480),
      (str ''daily_hadith'', 720, first_run now 720),
      (str ''religious_post'', 840, first_run now 840),
      (str ''daily_reminder'', 1020, first_run now 1020),
      (str ''companion_story'', 1140, first_run now 1140),
      (str ''daily_dua'', 1200, first_run now 1200),
      (str ''evening_azkar'', 1260, first_run now 1260)]"
  by (simp add: accepted_def default_schedule_def str_def digit_def)

lemma accepted_mem:
  "(ct, tod, nr) \<in> set (accepted now m) \<longleftrightarrow>
     (\<exists>ts. (ct, ts) \<in> set m \<and> parse_time_of_day ts = Some tod \<and> nr = first_run now tod)"
  by (induction m) (auto simp add: accepted_def split: option.splits)

lemma length_jobs_info: "length (jobs_info sch) = length (schedule_jobs sch)"
  by (simp add: jobs_info_def)

text \<open>
  Claim C7. \<open>setup_schedule\<close> always returns, and the registry then holds exactly the jobs
  of the entries whose time of day parses, in the mapping's order. Each unparseable entry
  is logged as an error and skipped (with distinct keys, as in a dictionary, no job of
  its content type exists); each well-formed entry has its job, at its time of day and
  first run.
\<close>

theorem setup_schedule_skips_malformed:
  "map job_view (schedule_jobs (fst (setup_schedule now custom_times st)))
     = accepted now (schedule_times_of custom_times)
   \<and> (\<forall>(ct, time_str) \<in> set (schedule_times_of custom_times).
        (parse_time_of_day time_str = None \<longrightarrow>
           Log ERROR ''Failed to schedule'' [Text ct, Text time_str]
             \<in> set (snd (setup_schedule now custom_times st))
         \<and> (distinct (map fst (schedule_times_of custom_times)) \<longrightarrow>
              ct \<notin> content_type ` set (schedule_jobs (fst (setup_schedule now custom_times st)))))
      \<and> (\<forall>tod. parse_time_of_day time_str = Some tod \<longrightarrow>
           (\<exists>j \<in> set (schedule_jobs (fst (setup_schedule now custom_times st))).
              content_type j = ct \<and> time_of_day j = tod \<and> next_run j = first_run now tod)))"
proof -
  let ?m = "schedule_times_of custom_times"
  let ?r = "setup_schedule now custom_times st"
  from setup_schedule_result[of now custom_times st] obtain evs where
    jobs: "map job_view (schedule_jobs (fst ?r)) = accepted now ?m"
    and tr: "snd ?r = snd st @ [Log INFO ''Setting up content schedule...'' []]
                       @ map entry_log ?m @ evs" by blast
  have views: "job_view ` set (schedule_jobs (fst ?r)) = set (accepted now ?m)"
    using jobs by (metis set_map)
  have bad: "Log ERROR ''Failed to schedule'' [Text ct, Text ts] \<in> set (snd ?r)"
    if "(ct, ts) \<in> set ?m" "parse_time_of_day ts = None" for ct ts
  proof -
    from that have "entry_log (ct, ts) = Log ERROR ''Failed to schedule'' [Text ct, Text ts]"
      by (simp add: entry_log_def)
    with that(1) have "Log ERROR ''Failed to schedule'' [Text ct, Text ts] \<in> entry_log ` set ?m"
      by force
    then show ?thesis unfolding tr by simp
  qed
  have skipped: "ct \<notin> content_type ` set (schedule_jobs (fst ?r))"
    if "(ct, ts) \<in> set ?m" "parse_time_of_day ts = None" "distinct (map fst ?m)" for ct ts
  proof
    assume "ct \<in> content_type ` set (schedule_jobs (fst ?r))"
    then obtain j where j: "j \<in> set (schedule_jobs (fst ?r))" "content_type j = ct" by blast
    then have "job_view j \<in> set (accepted now ?m)" using views by blast
    then obtain ts' where ts': "(ct, ts') \<in> set ?m" "parse_time_of_day ts' = Some (time_of_day j)"
      using j(2) by (auto simp add: job_view_def accepted_mem)
    from that(3) that(1) ts'(1) have "ts = ts'" by (rule eq_key_imp_eq_value)
    with that(2) ts'(2) show False by simp
  qed
  have good: "\<exists>j \<in> set (schedule_jobs (fst ?r)).
                content_type j = ct \<and> time_of_day j = tod \<and> next_run j = first_run now tod"
    if "(ct, ts) \<in> set ?m" "parse_time_of_day ts = Some tod" for ct ts tod
  proof -
    from that have "(ct, tod, first_run now tod) \<in> set (accepted now ?m)"
      by (auto simp add: accepted_mem)
    then have "(ct, tod, first_run now tod) \<in> job_view ` set (schedule_jobs (fst ?r))"
      using views by simp
    then show ?thesis by (auto simp add: job_view_def)
  qed
  from jobs bad skipped good show ?thesis by blast
qed


theorem setup_schedule_skips_malformed_witness:
  "parse_time_of_day (str ''25:99'') = None
   \<and> parse_time_of_day (str ''08:30'') = Some 510
   \<and> map job_view (schedule_jobs (fst (setup_schedule 0
           (Some [(str ''daily_dua'', str ''25:99''), (str ''quran_verse'', str ''08:30'')])
           (ContentScheduler, []))))
       = [(str ''quran_verse'', 510, 30600)]
   \<and> Log ERROR ''Failed to schedule'' [Text (str ''daily_dua''), Text (str ''25:99'')]
       \<in> set (snd (setup_schedule 0
           (Some [(str ''daily_dua'', str ''25:99''), (str ''quran_verse'', str ''08:30'')])
           (ContentScheduler, [])))"
  using setup_schedule_skips_malformed[of 0
          "Some [(str ''daily_dua'', str ''25:99''), (str ''quran_verse'', str ''08:30'')]"
          "(ContentScheduler, [])"]
  by (simp add: schedule_times_of_def accepted_def str_def digit_def first_run_def)

text \<open>
  Claim C5 as stated fails: at midnight, from a fresh scheduler, \<open>setup_schedule\<close> with the
  empty mapping registers eight jobs, and three runs are upcoming.
\<close>

theorem setup_schedule_empty_mapping_counterexample:
  "total_jobs (get_schedule_status (fst (setup_schedule 0 (Some []) (ContentScheduler, [])))) = 8
   \<and> upcoming (fst (setup_schedule 0 (Some []) (ContentScheduler, [])))
       = [(21600, str ''morning_azkar''), (28800, str ''quran_verse''), (43200, str ''daily_hadith'')]"
  by (simp add: setup_schedule_def Let_def schedule_clear_def ContentScheduler_def
        default_schedule_def every_day_at_do_def first_run_def get_schedule_status_def
        upcoming_def jobs_info_def str_def digit_def)

text \<open>
  Claim C5, amended. \<open>setup_schedule\<close> with the empty mapping does what it does with no
  mapping: the built-in default schedule is registered, so the status shows 8 jobs in
  all and the upcoming list has 3 entries.
\<close>

theorem setup_schedule_empty_mapping:
  "setup_schedule now (Some []) st = setup_schedule now None st
   \<and> map content_type (schedule_jobs (fst (setup_schedule now (Some []) st)))
       = map fst default_schedule
   \<and> total_jobs (get_schedule_status (fst (setup_schedule now (Some []) st))) = 8
   \<and> length (upcoming (fst (setup_schedule now (Some []) st))) = 3"
proof -
  let ?r = "setup_schedule now (Some []) st"
  have a: "?r = setup_schedule now None st"
    by (simp add: setup_schedule_def)
  have v: "map job_view (schedule_jobs (fst ?r)) = accepted now default_schedule"
    using setup_schedule_result[of now "Some []" st] by (simp add: schedule_times_of_def)
  have "map content_type (schedule_jobs (fst ?r)) = map fst (map job_view (schedule_jobs (fst ?r)))"
    by (simp add: job_view_def)
  then have b: "map content_type (schedule_jobs (fst ?r)) = map fst default_schedule"
    unfolding v accepted_default by (simp add: default_schedule_def)
  have "length (schedule_jobs (fst ?r)) = length (map job_view (schedule_jobs (fst ?r)))"
    by simp
  then have n: "length (schedule_jobs (fst ?r)) = 8"
    unfolding v accepted_default by simp
  have c: "total_jobs (get_schedule_status (fst ?r)) = 8"
    using n by (simp add: get_schedule_status_def)
  have d: "length (upcoming (fst ?r)) = 3"
    using n by (simp add: upcoming_def length_jobs_info)
  from a b c d show ?thesis by simp
qed

theorem setup_schedule_empty_mapping_witness:
  "map content_type (schedule_jobs (fst (setup_schedule 100000 (Some []) (ContentScheduler, []))))
     = [str ''morning_azkar'', str ''quran_verse'', str ''daily_hadith'', str ''religious_post'',
        str ''daily_reminder'', str ''companion_story'', str ''daily_dua'', str ''evening_azkar'']
   \<and> total_jobs (get_schedule_status (fst (setup_schedule 100000 (Some []) (ContentScheduler, [])))) = 8"
  using setup_schedule_empty_mapping[of 100000 "(ContentScheduler, [])"]
  by (auto simp add: default_schedule_def)

section \<open>Job registry: due jobs\<close>


lemma day_split: "\<exists>b s. now = 86400 * b + s \<and> s < (86400::nat)"
  by (rule exI[of _ "now div 86400"], rule exI[of _ "now mod 86400"]) simp

lemma first_run_on_split:
  "s < 86400 \<Longrightarrow> first_run (86400 * b + s) tod
     = (if s < tod * 60 then 86400 * b + tod * 60 else 86400 * b + tod * 60 + 86400)"
  by (simp add: first_run_def Let_def)

lemma first_run_aligned: "tod < 1440 \<Longrightarrow> first_run now tod mod 86400 = tod * 60"
proof -
  assume t: "tod < 1440"
  obtain b s where n: "now = 86400 * b + s" "s < 86400" using day_split by blast
  from t have "tod * 60 < 86400" by simp
  then show ?thesis unfolding n(1) first_run_on_split[OF n(2)] by simp
qed



text \<open>Every job that \<open>setup_schedule\<close> registers is aligned, and \<open>dueJobs\<close> keeps jobs aligned.\<close>

lemma parse_time_of_day_bound: "parse_time_of_day s = Some tod \<Longrightarrow> tod < 1440"
  by (cases s rule: parse_time_of_day.cases) (auto split: option.splits if_splits)

lemma setup_schedule_aligned:
  assumes "j \<in> set (schedule_jobs (fst (setup_schedule now custom_times st)))"
  shows "aligned j"
proof -
  from assms have "job_view j \<in> set (map job_view
                     (schedule_jobs (fst (setup_schedule now custom_times st))))" by simp
  then have "job_view j \<in> set (accepted now (schedule_times_of custom_times))"
    using setup_schedule_result[of now custom_times st] by simp
  then obtain ts where "parse_time_of_day ts = Some (time_of_day j)"
      "next_run j = first_run now (time_of_day j)"
    by (auto simp add: job_view_def accepted_mem)
  then show ?thesis
    using first_run_aligned[OF parse_time_of_day_bound] by (simp add: aligned_def)
qed

lemma dueJobs_aligned:
  assumes "\<forall>j \<in> set js. aligned j" "j' \<in> set (snd (dueJobs now js))"
  shows "aligned j'"
proof -
  from assms(2) obtain j where j: "j \<in> set js"
    "j' = (if next_run j \<le> now then j\<lparr>next_run := first_run now (time_of_day j)\<rparr> else j)"
    by (auto simp add: dueJobs_def)
  from assms(1) j(1) have a: "aligned j" by blast
  then have "time_of_day j * 60 < 86400"
    using mod_less_divisor[of 86400 "next_run j"] by (simp add: aligned_def)
  then have "time_of_day j < 1440" by simp
  with a j(2) show ?thesis
    using first_run_aligned[of "time_of_day j" now] by (simp add: aligned_def)
qed










end
